theory Spec2Isabelle
  imports Main "HOL-Library.Char_ord" "HOL-Library.List_Lexorder" "HOL-Library.AList"
begin

section \<open>aider/sendchat.py: exceptions and Python strings\<close>

text \<open>
  The functions of the module are modelled by what their bodies do when they are called:
  \<^verbatim>\<open>check_api_keys\<close>, the two providers, PromptConverter and the two dispatchers. Class
  AnthropicTokens (lines 184-208) is left out; its body names \<^verbatim>\<open>asyncio\<close>, which the module
  never imports.
\<close>

text \<open>
  Every exception class that a path of the module can raise, or that the module names in
  an \<^verbatim>\<open>except\<close> clause or in the retry decorator, is a constructor. \<open>Subclass e name\<close>
  is an exception of the class \<open>name\<close>, a subclass of the class of \<open>e\<close>, as
  \<^verbatim>\<open>requests.exceptions.SSLError\<close> is of \<^verbatim>\<open>requests.exceptions.ConnectionError\<close>: an
  \<^verbatim>\<open>except\<close> clause and the retry decorator catch it where they catch \<open>e\<close>.
  \<open>OtherError\<close> stands for any exception class that is neither named by the module nor a
  subclass of a class that it names.
\<close>

datatype error =
    KeyError
  | AttributeError
  | ValueError
  | UnboundLocalError
  | Timeout
  | APIError
  | ServiceUnavailableError
  | RateLimitError
  | APIConnectionError
  | RequestsConnectionError
  | InvalidRequestError
  | Subclass error string
  | OtherError string

text \<open>
  \<^verbatim>\<open>s.startswith(p)\<close>, and \<^verbatim>\<open>s.split(sep)\<close> for a separator that is not empty (the module
  splits on the literals \<^verbatim>\<open>"\n\n"\<close> and \<^verbatim>\<open>":"\<close> only): the string is cut at each occurrence
  of the separator, scanning from the left, and the result always has at least one part.
\<close>

definition str_startswith :: "string \<Rightarrow> string \<Rightarrow> bool" where
  "str_startswith s p = (take (length p) s = p)"

fun str_split_from :: "string \<Rightarrow> string \<Rightarrow> string \<Rightarrow> string list" where
  "str_split_from sep cur [] = [cur]"
| "str_split_from sep cur (c # cs) =
     (if str_startswith (c # cs) sep
      then cur # str_split_from sep [] (drop (length sep - 1) cs)
      else str_split_from sep (cur @ [c]) cs)"

definition str_split :: "string \<Rightarrow> string \<Rightarrow> string list" where
  "str_split s sep = str_split_from sep [] s"

text \<open>
  \<^verbatim>\<open>s.strip()\<close> removes leading and trailing white space: of the first 256 code points,
  those that \<^verbatim>\<open>str.isspace\<close> accepts.
\<close>

definition str_isspace :: "char \<Rightarrow> bool" where
  "str_isspace c =
     (let n = (of_char c :: nat)
      in (9 \<le> n \<and> n \<le> 13) \<or> (28 \<le> n \<and> n \<le> 32) \<or> n = 133 \<or> n = 160)"

definition str_strip :: "string \<Rightarrow> string" where
  "str_strip s = rev (dropWhile str_isspace (rev (dropWhile str_isspace s)))"

section \<open>RoleOptions and PromptConverter (lines 156-182)\<close>

text \<open>
  \<^verbatim>\<open>class RoleOptions(Enum)\<close> annotates the names USER and ASSISTANT and assigns neither, so
  the enumeration has no member and reading an attribute of that name raises
  AttributeError.
\<close>

definition RoleOptions_members :: "(string \<times> string) list" where
  "RoleOptions_members = []"

definition RoleOptions_getattr :: "string \<Rightarrow> error + string" where
  "RoleOptions_getattr name =
     (case map_of RoleOptions_members name of
        None \<Rightarrow> Inl AttributeError
      | Some member \<Rightarrow> Inr member)"

text \<open>
  \<^verbatim>\<open>PromptConverter.__init__\<close> stores the two delimiters that it imports from the anthropic
  package, HUMAN_PROMPT and AI_PROMPT. Their values are not part of the module; they are
  the arguments of the constructor here. \<open>role_options\<close> is the class RoleOptions above.
\<close>

record PromptConverter =
  human_prompt :: string
  ai_prompt :: string

definition PromptConverter_init :: "string \<Rightarrow> string \<Rightarrow> PromptConverter" where
  "PromptConverter_init HUMAN_PROMPT AI_PROMPT =
     \<lparr>human_prompt = HUMAN_PROMPT, ai_prompt = AI_PROMPT\<rparr>"

text \<open>
  \<^verbatim>\<open>convert_to_anthropic\<close> (lines 167-174). \<^verbatim>\<open>message_dict.items()\<close> is the list of the
  dictionary's (role, content) pairs in insertion order. Each iteration reads
  \<^verbatim>\<open>self.role_options.USER\<close> before it compares.
\<close>

fun convert_to_anthropic_loop ::
  "PromptConverter \<Rightarrow> (string \<times> string) list \<Rightarrow> string \<Rightarrow> error + string" where
  "convert_to_anthropic_loop self [] prompt = Inr prompt"
| "convert_to_anthropic_loop self ((role, content) # items) prompt =
     (case RoleOptions_getattr ''USER'' of
        Inl e \<Rightarrow> Inl e
      | Inr user \<Rightarrow>
          (let prompt1 = (if role = user then prompt @ human_prompt self @ content else prompt)
           in case RoleOptions_getattr ''ASSISTANT'' of
                Inl e \<Rightarrow> Inl e
              | Inr assistant \<Rightarrow>
                  convert_to_anthropic_loop self items
                    (if role = assistant then prompt1 @ ai_prompt self @ content
                     else prompt1)))"

definition convert_to_anthropic ::
  "PromptConverter \<Rightarrow> (string \<times> string) list \<Rightarrow> error + string" where
  "convert_to_anthropic self message_dict = convert_to_anthropic_loop self message_dict []"

text \<open>
  \<^verbatim>\<open>role, content = message.split(":")\<close> (line 180): the unpacking needs exactly two
  parts and raises ValueError otherwise.
\<close>

fun unpack_role_content :: "string list \<Rightarrow> error + string \<times> string" where
  "unpack_role_content [role, content] = Inr (role, content)"
| "unpack_role_content parts = Inl ValueError"

text \<open>
  Line 181 calls \<^verbatim>\<open>self.generate_prompt\<close>. Class PromptConverter defines \<^verbatim>\<open>__init__\<close>,
  \<^verbatim>\<open>convert_to_anthropic\<close> and \<^verbatim>\<open>convert_to_openai\<close>, and its instances carry
  \<^verbatim>\<open>human_prompt\<close>, \<^verbatim>\<open>ai_prompt\<close> and \<^verbatim>\<open>role_options\<close>: the lookup of \<^verbatim>\<open>generate_prompt\<close>
  raises AttributeError. The loop takes the outcome of the lookup as \<open>gp\<close>, so that its
  other steps are stated for any outcome.
\<close>

definition PromptConverter_generate_prompt :: "error + (string \<Rightarrow> error + 'v)" where
  "PromptConverter_generate_prompt = Inl AttributeError"

fun convert_to_openai_loop ::
  "error + (string \<Rightarrow> error + 'v) \<Rightarrow> string list \<Rightarrow> (string \<rightharpoonup> 'v) \<Rightarrow> error + (string \<rightharpoonup> 'v)" where
  "convert_to_openai_loop gp [] response = Inr response"
| "convert_to_openai_loop gp (message # messages) response =
     (case unpack_role_content (str_split message '':'') of
        Inl e \<Rightarrow> Inl e
      | Inr (role, content) \<Rightarrow>
          (case gp of
             Inl e \<Rightarrow> Inl e
           | Inr generate_prompt \<Rightarrow>
               (case generate_prompt (str_strip content) of
                  Inl e \<Rightarrow> Inl e
                | Inr v \<Rightarrow> convert_to_openai_loop gp messages (response(str_strip role \<mapsto> v)))))"

definition convert_to_openai :: "PromptConverter \<Rightarrow> string \<Rightarrow> error + (string \<rightharpoonup> 'v)" where
  "convert_to_openai self message_string =
     convert_to_openai_loop PromptConverter_generate_prompt
       (str_split message_string [CHR 0x0A, CHR 0x0A]) Map.empty"

section \<open>Requests and their cache key (lines 52-67)\<close>

text \<open>
  The values that \<^verbatim>\<open>json.dumps\<close> serialises. A dictionary is the list of its items in
  insertion order; its keys are strings, each at most once (\<open>wf_json\<close>). The module
  itself contributes the integer 0 and the stream flag; messages and function
  descriptions come from the caller.
\<close>

datatype json =
    JNull
  | JBool bool
  | JInt int
  | JStr string
  | JList "json list"
  | JDict "(string \<times> json) list"

fun wf_json :: "json \<Rightarrow> bool" where
  "wf_json (JList xs) = (\<forall>x \<in> set xs. wf_json x)"
| "wf_json (JDict kvs) = (distinct (map fst kvs) \<and> (\<forall>(k, v) \<in> set kvs. wf_json v))"
| "wf_json atom = True"

text \<open>
  \<^verbatim>\<open>json.dumps(obj, sort_keys=True)\<close> with the default separators \<^verbatim>\<open>", "\<close> and \<^verbatim>\<open>": "\<close> and
  the default \<^verbatim>\<open>ensure_ascii\<close>: a string is quoted and every character outside the
  printable ASCII range, the quote and the backslash are escaped; the items of a
  dictionary are written in the order of their keys.
\<close>

definition hex_digit :: "nat \<Rightarrow> char" where
  "hex_digit d = ''0123456789abcdef'' ! (d mod 16)"

definition escape_char :: "char \<Rightarrow> string" where
  "escape_char c =
     (let n = (of_char c :: nat) in
      if c = CHR 0x22 then [CHR 0x5C, CHR 0x22]
      else if c = CHR 0x5C then [CHR 0x5C, CHR 0x5C]
      else if c = CHR 0x0A then [CHR 0x5C, CHR ''n'']
      else if c = CHR 0x0D then [CHR 0x5C, CHR ''r'']
      else if c = CHR 0x09 then [CHR 0x5C, CHR ''t'']
      else if c = CHR 0x08 then [CHR 0x5C, CHR ''b'']
      else if c = CHR 0x0C then [CHR 0x5C, CHR ''f'']
      else if n < 32 \<or> 126 < n
        then [CHR 0x5C, CHR ''u'', CHR ''0'', CHR ''0'', hex_digit (n div 16), hex_digit n]
      else [c])"

definition encode_basestring_ascii :: "string \<Rightarrow> string" where
  "encode_basestring_ascii s = [CHR 0x22] @ concat (map escape_char s) @ [CHR 0x22]"

fun decimal :: "nat \<Rightarrow> string" where
  "decimal n =
     (if n < 10 then [''0123456789'' ! n]
      else decimal (n div 10) @ [''0123456789'' ! (n mod 10)])"

definition int_repr :: "int \<Rightarrow> string" where
  "int_repr i = (if i < 0 then CHR ''-'' # decimal (nat (- i)) else decimal (nat i))"

fun join :: "string \<Rightarrow> string list \<Rightarrow> string" where
  "join sep [] = []"
| "join sep [x] = x"
| "join sep (x # y # ys) = x @ sep @ join sep (y # ys)"

fun dumps :: "json \<Rightarrow> string" where
  "dumps JNull = ''null''"
| "dumps (JBool b) = (if b then ''true'' else ''false'')"
| "dumps (JInt i) = int_repr i"
| "dumps (JStr s) = encode_basestring_ascii s"
| "dumps (JList xs) = ''['' @ join '', '' (map dumps xs) @ '']''"
| "dumps (JDict kvs) =
     ''{'' @ join '', '' (map (\<lambda>(k, v). encode_basestring_ascii k @ '': '' @ dumps v)
                            (sort_key fst kvs)) @ ''}''"

text \<open>
  Two values are the same logical value when they are equal as Python values: lists
  element by element, dictionaries key by key whatever the insertion order.
\<close>

fun same_json :: "json \<Rightarrow> json \<Rightarrow> bool" where
  "same_json (JList xs) (JList ys) = list_all2 same_json xs ys"
| "same_json (JDict kvs) (JDict kvs') =
     (set (map fst kvs) = set (map fst kvs') \<and>
      (\<forall>(k, v) \<in> set kvs. \<exists>(k', v') \<in> set kvs'. k = k' \<and> same_json v v'))"
| "same_json (JList xs) b = False"
| "same_json (JDict kvs) b = False"
| "same_json a b = (a = b)"

text \<open>
  \<^verbatim>\<open>hashlib.sha1(key)\<close> returns a hash object that has been fed the bytes of the key; its
  digest is a function of these bytes. The output of \<^verbatim>\<open>json.dumps\<close> is ASCII, so
  \<^verbatim>\<open>.encode()\<close> keeps its characters.
\<close>

datatype hash_object = SHA1 string

text \<open>
  What the module reads from outside itself: the process environment, the delimiters
  of the anthropic package, the two optional attributes of the openai module
  (\<open>None\<close> when \<^verbatim>\<open>hasattr\<close> is false, otherwise a string or Python's \<^verbatim>\<open>None\<close>), the remote call
  \<^verbatim>\<open>openai.ChatCompletion.create\<close>, whose outcome may depend on how many calls were made
  before it, and the reading \<^verbatim>\<open>response.choices[0].message.content\<close> of a response.
\<close>

record 'r setting =
  environ :: "string \<rightharpoonup> string"
  HUMAN_PROMPT :: string
  AI_PROMPT :: string
  api_deployment_id :: "string option option"
  api_engine :: "string option option"
  ChatCompletion_create :: "nat \<Rightarrow> (string \<times> json) list \<Rightarrow> error + 'r"
  message_content :: "'r \<Rightarrow> error + string"

text \<open>
  What \<^verbatim>\<open>check_api_keys\<close> returns, a key or \<^verbatim>\<open>False\<close>, and its truth value in an \<^verbatim>\<open>if\<close>.
\<close>

datatype api_key = Key string | PyFalse

fun truthy :: "api_key \<Rightarrow> bool" where
  "truthy (Key k) = (k \<noteq> [])"
| "truthy PyFalse = False"

text \<open>
  The two providers. An AnthropicChatBot holds the key it was given and a
  PromptConverter; its two clients of the anthropic package are taken to be
  constructed without an exception. An OpenAIChatBot holds the value of
  \<^verbatim>\<open>os.getenv("OPENAI_API_KEY")\<close>.
\<close>

datatype bot =
    OpenAIChatBot "string option"
  | AnthropicChatBot api_key PromptConverter

text \<open>
  The state that calls change: the module's global \<^verbatim>\<open>CACHE\<close> (\<open>None\<close> as the module
  sets it, a store when caching is enabled), the providers constructed so far, and
  counters of the other effects that the properties speak of: remote calls made,
  fingerprints computed, cache lookups, sleeps of the retry policy.
\<close>

record 'r world =
  CACHE :: "(string \<rightharpoonup> 'r) option"
  constructed :: "bot list"
  remote_calls :: nat
  sha1_calls :: nat
  cache_reads :: nat
  backoffs :: nat

definition attr_json :: "string option \<Rightarrow> json" where
  "attr_json a = (case a of None \<Rightarrow> JNull | Some s \<Rightarrow> JStr s)"

definition request_kwargs ::
  "'r setting \<Rightarrow> string \<Rightarrow> json \<Rightarrow> json option \<Rightarrow> bool \<Rightarrow> (string \<times> json) list" where
  "request_kwargs st model messages functions stream =
     (let kwargs = [(''model'', JStr model), (''messages'', messages),
                    (''temperature'', JInt 0), (''stream'', JBool stream)];
          kwargs = (case functions of
                      None \<Rightarrow> kwargs
                    | Some f \<Rightarrow> AList.update ''functions'' f kwargs);
          kwargs = (case api_deployment_id st of
                      None \<Rightarrow> kwargs
                    | Some d \<Rightarrow> AList.update ''deployment_id'' (attr_json d) kwargs);
          kwargs = (case api_engine st of
                      None \<Rightarrow> kwargs
                    | Some e \<Rightarrow> AList.update ''engine'' (attr_json e) kwargs)
      in kwargs)"

definition request_key ::
  "'r setting \<Rightarrow> string \<Rightarrow> json \<Rightarrow> json option \<Rightarrow> bool \<Rightarrow> string" where
  "request_key st model messages functions stream =
     dumps (JDict (request_kwargs st model messages functions stream))"

section \<open>OpenAIChatBot (lines 32-89)\<close>

text \<open>
  The body of \<^verbatim>\<open>OpenAIChatBot.send_with_retries\<close> (lines 52-77), run once. The key and
  the hash object are computed first, for every request. The cache is looked up only
  when \<^verbatim>\<open>not stream and CACHE is not None\<close>; a hit returns before the remote call. An
  exception of the remote call leaves the body at line 72.
\<close>

definition send_with_retries_body ::
  "'r setting \<Rightarrow> string \<Rightarrow> json \<Rightarrow> json option \<Rightarrow> bool \<Rightarrow> 'r world
     \<Rightarrow> (error + hash_object \<times> 'r) \<times> 'r world" where
  "send_with_retries_body st model messages functions stream w =
     (let kwargs = request_kwargs st model messages functions stream;
          key = dumps (JDict kwargs);
          hash_object = SHA1 key;
          w1 = w\<lparr>sha1_calls := Suc (sha1_calls w)\<rparr>;
          consulted = (if stream then None else CACHE w1);
          w2 = (case consulted of
                  None \<Rightarrow> w1
                | Some cache \<Rightarrow> w1\<lparr>cache_reads := Suc (cache_reads w1)\<rparr>)
      in case (case consulted of None \<Rightarrow> None | Some cache \<Rightarrow> cache key) of
           Some cached \<Rightarrow> (Inr (hash_object, cached), w2)
         | None \<Rightarrow>
             (let w3 = w2\<lparr>remote_calls := Suc (remote_calls w2)\<rparr>
              in case ChatCompletion_create st (remote_calls w2) kwargs of
                   Inl e \<Rightarrow> (Inl e, w3)
                 | Inr res \<Rightarrow>
                     (Inr (hash_object, res),
                      (case (if stream then None else CACHE w3) of
                         None \<Rightarrow> w3
                       | Some cache \<Rightarrow> w3\<lparr>CACHE := Some (cache(key \<mapsto> res))\<rparr>))))"

text \<open>
  The condition of line 69, \<^verbatim>\<open>not stream and CACHE is not None and key in CACHE\<close>, is
  false.
\<close>

definition cache_miss :: "bool \<Rightarrow> 'r world \<Rightarrow> string \<Rightarrow> bool" where
  "cache_miss stream w key =
     (stream \<or> (case CACHE w of None \<Rightarrow> True | Some cache \<Rightarrow> cache key = None))"

text \<open>
  The decorator \<^verbatim>\<open>backoff.on_exception(backoff.expo, (...), max_tries=10, on_backoff=...)\<close>
  of lines 36-50: the exception classes that it retries (it catches an exception whose
  class is one of the six or a subclass of one of them), and its loop. The loop calls
  the function; a result is returned; an exception outside the classes, or the
  exception of the last permitted try, is raised again; otherwise the handler prints,
  the policy sleeps and the loop calls again. The first argument counts the tries that
  remain after the current one.
\<close>

fun retryable :: "error \<Rightarrow> bool" where
  "retryable (Subclass e name) = retryable e"
| "retryable e =
     (e = Timeout \<or> e = APIError \<or> e = ServiceUnavailableError \<or> e = RateLimitError \<or>
      e = APIConnectionError \<or> e = RequestsConnectionError)"

definition max_tries :: nat where
  "max_tries = 10"

primrec on_exception ::
  "nat \<Rightarrow> ('r world \<Rightarrow> (error + 'a) \<times> 'r world) \<Rightarrow> 'r world \<Rightarrow> (error + 'a) \<times> 'r world" where
  "on_exception 0 target w = target w"
| "on_exception (Suc tries_left) target w =
     (case target w of
        (Inr ret, w') \<Rightarrow> (Inr ret, w')
      | (Inl e, w') \<Rightarrow>
          (if retryable e
           then on_exception tries_left target (w'\<lparr>backoffs := Suc (backoffs w')\<rparr>)
           else (Inl e, w')))"

definition OpenAIChatBot_send_with_retries ::
  "'r setting \<Rightarrow> string \<Rightarrow> json \<Rightarrow> json option \<Rightarrow> bool \<Rightarrow> 'r world
     \<Rightarrow> (error + hash_object \<times> 'r) \<times> 'r world" where
  "OpenAIChatBot_send_with_retries st model messages functions stream =
     on_exception (max_tries - 1) (send_with_retries_body st model messages functions stream)"

text \<open>
  \<^verbatim>\<open>OpenAIChatBot.simple_send_with_retries\<close> (lines 79-89): AttributeError and
  InvalidRequestError and their subclasses, raised by the call or by the reading of
  the content, end in the return of \<^verbatim>\<open>None\<close>.
\<close>

fun swallowed :: "error \<Rightarrow> bool" where
  "swallowed (Subclass e name) = swallowed e"
| "swallowed e = (e = AttributeError \<or> e = InvalidRequestError)"

definition OpenAIChatBot_simple_send_with_retries ::
  "'r setting \<Rightarrow> string \<Rightarrow> json \<Rightarrow> 'r world \<Rightarrow> (error + string option) \<times> 'r world" where
  "OpenAIChatBot_simple_send_with_retries st model messages w =
     (case OpenAIChatBot_send_with_retries st model messages None False w of
        (Inl e, w') \<Rightarrow> (if swallowed e then (Inr None, w') else (Inl e, w'))
      | (Inr (hash, response), w') \<Rightarrow>
          (case message_content st response of
             Inl e \<Rightarrow> (if swallowed e then (Inr None, w') else (Inl e, w'))
           | Inr content \<Rightarrow> (Inr (Some content), w')))"

section \<open>AnthropicChatBot (lines 91-154)\<close>

definition AnthropicChatBot_init :: "'r setting \<Rightarrow> api_key \<Rightarrow> bot" where
  "AnthropicChatBot_init st api_key =
     AnthropicChatBot api_key (PromptConverter_init (HUMAN_PROMPT st) (AI_PROMPT st))"

definition OpenAIChatBot_init :: "'r setting \<Rightarrow> bot" where
  "OpenAIChatBot_init st = OpenAIChatBot (environ st ''OPENAI_API_KEY'')"

text \<open>
  \<^verbatim>\<open>is_claude\<close> (line 105) calls \<^verbatim>\<open>model.startswith\<close>; the default \<^verbatim>\<open>model=None\<close> of
  \<^verbatim>\<open>async_stream\<close> has no such attribute.
\<close>

definition is_claude :: "string option \<Rightarrow> error + bool" where
  "is_claude model =
     (case model of
        None \<Rightarrow> Inl AttributeError
      | Some m \<Rightarrow> Inr (str_startswith m ''claude''))"

text \<open>
  \<^verbatim>\<open>async_stream\<close> (lines 122-154), run to its end. \<^verbatim>\<open>not prompt\<close> holds of \<^verbatim>\<open>None\<close> and of
  the empty string. For a claude model the empty prompt raises ValueError at line 135,
  which the handler of APIStatusError does not catch. A prompt that is not empty
  reaches line 136, which reads \<^verbatim>\<open>self.prompt_converter\<close>: the instance has the attribute
  \<^verbatim>\<open>converter\<close> (line 96) and no \<^verbatim>\<open>prompt_converter\<close>, so AttributeError leaves the
  \<^verbatim>\<open>try\<close> block before the remote call of line 139. For any other model line 154
  returns \<^verbatim>\<open>response\<close>, a local name that was never assigned. No path changes the
  world.
\<close>

definition async_stream ::
  "bot \<Rightarrow> string option \<Rightarrow> string option \<Rightarrow> 'r world \<Rightarrow> (error + string) \<times> 'r world" where
  "async_stream self prompt model w =
     (case is_claude model of
        Inl e \<Rightarrow> (Inl e, w)
      | Inr True \<Rightarrow>
          (if prompt = None \<or> prompt = Some []
           then (Inl ValueError, w)
           else (Inl AttributeError, w))
      | Inr False \<Rightarrow> (Inl UnboundLocalError, w))"

section \<open>The dispatcher (lines 22-30 and 210-224)\<close>

text \<open>
  \<^verbatim>\<open>check_api_keys\<close> returns the Anthropic key when it is not empty and \<^verbatim>\<open>False\<close>
  otherwise. \<^verbatim>\<open>os.getenv\<close> gives \<^verbatim>\<open>None\<close> for a variable that is not set;
  \<^verbatim>\<open>os.environ[...]\<close> raises KeyError for it.
\<close>

definition check_api_keys :: "(string \<rightharpoonup> string) \<Rightarrow> error + api_key" where
  "check_api_keys env =
     (let openai_api_key = env ''OPENAI_API_KEY''
      in case env ''ANTHROPIC_API_KEY'' of
           None \<Rightarrow> Inl KeyError
         | Some anthropic_api_key \<Rightarrow>
             (if anthropic_api_key \<noteq> [] then Inr (Key anthropic_api_key)
              else if openai_api_key \<noteq> None \<and> openai_api_key \<noteq> Some [] then Inr PyFalse
              else Inr PyFalse))"

text \<open>
  Lines 211-215 and 219-223: the provider that the dispatcher constructs. The key that
  \<^verbatim>\<open>check_api_keys\<close> returned is what the Anthropic provider is built with.
\<close>

definition construct_bot :: "'r setting \<Rightarrow> api_key \<Rightarrow> bot" where
  "construct_bot st api_key =
     (if truthy api_key then AnthropicChatBot_init st api_key else OpenAIChatBot_init st)"

text \<open>
  Lines 216 and 224 call a method of the provider by name. Class AnthropicChatBot
  defines \<^verbatim>\<open>__init__\<close>, \<^verbatim>\<open>create\<close>, \<^verbatim>\<open>is_claude\<close>, \<^verbatim>\<open>generate_prompt\<close> and \<^verbatim>\<open>async_stream\<close>;
  the lookup of any other method name on its instance raises AttributeError.
\<close>

fun bot_send_with_retries ::
  "bot \<Rightarrow> 'r setting \<Rightarrow> string \<Rightarrow> json \<Rightarrow> json option \<Rightarrow> bool \<Rightarrow> 'r world
     \<Rightarrow> (error + hash_object \<times> 'r) \<times> 'r world" where
  "bot_send_with_retries (OpenAIChatBot k) st model messages functions stream w =
     OpenAIChatBot_send_with_retries st model messages functions stream w"
| "bot_send_with_retries (AnthropicChatBot k c) st model messages functions stream w =
     (Inl AttributeError, w)"

fun bot_simple_send_with_retries ::
  "bot \<Rightarrow> 'r setting \<Rightarrow> string \<Rightarrow> json \<Rightarrow> 'r world \<Rightarrow> (error + string option) \<times> 'r world" where
  "bot_simple_send_with_retries (OpenAIChatBot k) st model messages w =
     OpenAIChatBot_simple_send_with_retries st model messages w"
| "bot_simple_send_with_retries (AnthropicChatBot k c) st model messages w =
     (Inl AttributeError, w)"

definition send_with_retries ::
  "'r setting \<Rightarrow> string \<Rightarrow> json \<Rightarrow> json option \<Rightarrow> bool \<Rightarrow> 'r world
     \<Rightarrow> (error + hash_object \<times> 'r) \<times> 'r world" where
  "send_with_retries st model messages functions stream w =
     (case check_api_keys (environ st) of
        Inl e \<Rightarrow> (Inl e, w)
      | Inr api_key \<Rightarrow>
          (let bot = construct_bot st api_key
           in bot_send_with_retries bot st model messages functions stream
                (w\<lparr>constructed := constructed w @ [bot]\<rparr>)))"

definition simple_send_with_retries ::
  "'r setting \<Rightarrow> string \<Rightarrow> json \<Rightarrow> 'r world \<Rightarrow> (error + string option) \<times> 'r world" where
  "simple_send_with_retries st model messages w =
     (case check_api_keys (environ st) of
        Inl e \<Rightarrow> (Inl e, w)
      | Inr api_key \<Rightarrow>
          (let bot = construct_bot st api_key
           in bot_simple_send_with_retries bot st model messages
                (w\<lparr>constructed := constructed w @ [bot]\<rparr>)))"

section \<open>The segment split as the specification words it\<close>

text \<open>
  The specification has each segment of a transcript split into role and content on the
  first colon. This definition follows those words, for comparison with the unpacking of
  line 180; it is not part of the module.
\<close>

definition spec_split_first_colon :: "string \<Rightarrow> (string \<times> string) option" where
  "spec_split_first_colon segment =
     (if CHR '':'' \<in> set segment
      then Some (takeWhile (\<lambda>c. c \<noteq> CHR '':'') segment,
                 tl (dropWhile (\<lambda>c. c \<noteq> CHR '':'') segment))
      else None)"

section \<open>Example inputs\<close>

text \<open>
  A setting with responses that are strings, the delimiters as the anthropic package
  defines them and no optional attribute of the openai module; a world in which nothing
  has happened yet; one user message; remote calls that always raise, or always answer,
  or raise on the first \<open>k\<close> calls and have a fixed outcome from then on.
\<close>

definition example_setting ::
  "(string \<rightharpoonup> string) \<Rightarrow> (nat \<Rightarrow> (string \<times> json) list \<Rightarrow> error + string) \<Rightarrow> string setting" where
  "example_setting env create =
     \<lparr>environ = env,
      HUMAN_PROMPT = [CHR 0x0A, CHR 0x0A] @ ''Human:'',
      AI_PROMPT = [CHR 0x0A, CHR 0x0A] @ ''Assistant:'',
      api_deployment_id = None,
      api_engine = None,
      ChatCompletion_create = create,
      message_content = (\<lambda>response. Inr response)\<rparr>"

definition example_world :: "(string \<rightharpoonup> string) option \<Rightarrow> string world" where
  "example_world cache =
     \<lparr>CACHE = cache, constructed = [], remote_calls = 0, sha1_calls = 0, cache_reads = 0,
      backoffs = 0\<rparr>"

definition example_messages :: json where
  "example_messages = JList [JDict [(''role'', JStr ''user''), (''content'', JStr ''hi'')]]"

definition always_raises :: "error \<Rightarrow> nat \<Rightarrow> (string \<times> json) list \<Rightarrow> error + string" where
  "always_raises e i kwargs = Inl e"

definition always_returns :: "string \<Rightarrow> nat \<Rightarrow> (string \<times> json) list \<Rightarrow> error + string" where
  "always_returns res i kwargs = Inr res"

definition raises_then ::
  "nat \<Rightarrow> error \<Rightarrow> error + string \<Rightarrow> nat \<Rightarrow> (string \<times> json) list \<Rightarrow> error + string" where
  "raises_then k e outcome i kwargs = (if i < k then Inl e else outcome)"


section \<open>Facts about the models\<close>

subsection \<open>Example inputs\<close>

lemma example_create [simp]: "ChatCompletion_create (example_setting env create) = create"
  by (simp add: example_setting_def)

lemma example_world_sel [simp]:
  "CACHE (example_world cache) = cache" "remote_calls (example_world cache) = 0"
  "sha1_calls (example_world cache) = 0" "cache_reads (example_world cache) = 0"
  "backoffs (example_world cache) = 0" "constructed (example_world cache) = []"
  by (simp_all add: example_world_def)

subsection \<open>The providers constructed are recorded by the dispatcher only\<close>

lemma body_constructed:
  "constructed (snd (send_with_retries_body st model messages functions stream w)) = constructed w"
  by (simp add: send_with_retries_body_def Let_def split: option.splits sum.splits)

lemma on_exception_constructed:
  assumes "\<And>w. constructed (snd (target w)) = constructed w"
  shows "constructed (snd (on_exception n target w)) = constructed w"
proof (induction n arbitrary: w)
  case 0
  show ?case by (simp add: assms)
next
  case (Suc n)
  obtain r w' where t: "target w = (r, w')" by (cases "target w")
  have c: "constructed w' = constructed w" using assms [of w] t by simp
  show ?case
  proof (cases r)
    case (Inl e)
    then show ?thesis using t c Suc.IH [of "w'\<lparr>backoffs := Suc (backoffs w')\<rparr>"] by simp
  next
    case (Inr ret)
    then show ?thesis using t c by simp
  qed
qed

lemma OpenAI_send_constructed:
  "constructed (snd (OpenAIChatBot_send_with_retries st model messages functions stream w)) = constructed w"
  unfolding OpenAIChatBot_send_with_retries_def
  by (rule on_exception_constructed) (rule body_constructed)

lemma OpenAI_simple_send_constructed:
  "constructed (snd (OpenAIChatBot_simple_send_with_retries st model messages w)) = constructed w"
  using OpenAI_send_constructed [of st model messages None False w]
  by (auto simp: OpenAIChatBot_simple_send_with_retries_def split: prod.splits sum.splits)

subsection \<open>One run of the body\<close>

lemma body_hit:
  assumes "CACHE w = Some cache" and "cache (request_key st model messages functions False) = Some cached"
  shows "send_with_retries_body st model messages functions False w =
           (Inr (SHA1 (request_key st model messages functions False), cached),
            w\<lparr>sha1_calls := Suc (sha1_calls w), cache_reads := Suc (cache_reads w)\<rparr>)"
  using assms by (simp add: send_with_retries_body_def request_key_def Let_def)

lemma body_miss_raise:
  assumes "cache_miss stream w (request_key st model messages functions stream)"
    and "ChatCompletion_create st (remote_calls w) (request_kwargs st model messages functions stream) = Inl e"
  shows "fst (send_with_retries_body st model messages functions stream w) = Inl e"
    and "remote_calls (snd (send_with_retries_body st model messages functions stream w)) = Suc (remote_calls w)"
    and "CACHE (snd (send_with_retries_body st model messages functions stream w)) = CACHE w"
    and "backoffs (snd (send_with_retries_body st model messages functions stream w)) = backoffs w"
  using assms
  by (auto simp: send_with_retries_body_def request_key_def cache_miss_def Let_def split: option.splits)

lemma body_miss_return:
  assumes "cache_miss stream w (request_key st model messages functions stream)"
    and "ChatCompletion_create st (remote_calls w) (request_kwargs st model messages functions stream) = Inr res"
  shows "fst (send_with_retries_body st model messages functions stream w) =
           Inr (SHA1 (request_key st model messages functions stream), res)"
    and "remote_calls (snd (send_with_retries_body st model messages functions stream w)) = Suc (remote_calls w)"
    and "CACHE (snd (send_with_retries_body st model messages functions stream w)) =
           (if stream then CACHE w
            else map_option (\<lambda>cache. cache(request_key st model messages functions stream \<mapsto> res)) (CACHE w))"
    and "backoffs (snd (send_with_retries_body st model messages functions stream w)) = backoffs w"
  using assms
  by (auto simp: send_with_retries_body_def request_key_def cache_miss_def Let_def split: option.splits)

lemma body_stream:
  "CACHE (snd (send_with_retries_body st model messages functions True w)) = CACHE w"
  "cache_reads (snd (send_with_retries_body st model messages functions True w)) = cache_reads w"
  "sha1_calls (snd (send_with_retries_body st model messages functions True w)) = Suc (sha1_calls w)"
  "remote_calls (snd (send_with_retries_body st model messages functions True w)) = Suc (remote_calls w)"
  by (simp_all add: send_with_retries_body_def Let_def split: sum.splits)

lemma body_sha1:
  "sha1_calls (snd (send_with_retries_body st model messages functions stream w)) = Suc (sha1_calls w)"
  by (simp add: send_with_retries_body_def Let_def split: option.splits sum.splits)

lemma body_hash:
  "fst (send_with_retries_body st model messages functions stream w) = Inr (h, res) \<Longrightarrow>
   h = SHA1 (request_key st model messages functions stream)"
  by (auto simp: send_with_retries_body_def request_key_def Let_def split: option.splits sum.splits)

subsection \<open>The retry loop\<close>

lemma cache_miss_backoff [simp]:
  "cache_miss stream (w\<lparr>backoffs := b\<rparr>) key = cache_miss stream w key"
  by (simp add: cache_miss_def)

lemma on_exception_return:
  "target w = (Inr ret, w') \<Longrightarrow> on_exception n target w = (Inr ret, w')"
  by (cases n) simp_all

lemma retry_prefix:
  assumes "cache_miss stream w (request_key st model messages functions stream)"
    and "\<forall>i<k. \<exists>e. ChatCompletion_create st (remote_calls w + i)
                        (request_kwargs st model messages functions stream) = Inl e \<and> retryable e"
    and "k \<le> n"
  shows "\<exists>w'. on_exception n (send_with_retries_body st model messages functions stream) w =
                on_exception (n - k) (send_with_retries_body st model messages functions stream) w' \<and>
              remote_calls w' = remote_calls w + k \<and> CACHE w' = CACHE w \<and>
              backoffs w' = backoffs w + k \<and> sha1_calls w' = sha1_calls w + k"
  using assms
proof (induction k arbitrary: w n)
  case 0
  show ?case by (rule exI [of _ w]) simp
next
  case (Suc k)
  let ?body = "send_with_retries_body st model messages functions stream"
  let ?kw = "request_kwargs st model messages functions stream"
  obtain n' where n: "n = Suc n'" and kn: "k \<le> n'"
    using Suc.prems(3) by (cases n) simp_all
  obtain e where e: "ChatCompletion_create st (remote_calls w) ?kw = Inl e" and r: "retryable e"
    using Suc.prems(2) [rule_format, of 0] by auto
  obtain w1 where b: "?body w = (Inl e, w1)"
    using body_miss_raise(1) [OF Suc.prems(1) e] by (cases "?body w") simp
  have w1: "remote_calls w1 = Suc (remote_calls w)" "CACHE w1 = CACHE w" "backoffs w1 = backoffs w"
    "sha1_calls w1 = Suc (sha1_calls w)"
    using body_miss_raise(2,3,4) [OF Suc.prems(1) e] body_sha1 [of st model messages "functions" stream w] b
    by simp_all
  let ?w = "w1\<lparr>backoffs := Suc (backoffs w1)\<rparr>"
  have m: "cache_miss stream ?w (request_key st model messages functions stream)"
    using Suc.prems(1) w1(2) by (simp add: cache_miss_def)
  have p: "\<forall>i<k. \<exists>e. ChatCompletion_create st (remote_calls ?w + i) ?kw = Inl e \<and> retryable e"
  proof (intro allI impI)
    fix i
    assume "i < k"
    then have "Suc i < Suc k" by simp
    then show "\<exists>e. ChatCompletion_create st (remote_calls ?w + i) ?kw = Inl e \<and> retryable e"
      using Suc.prems(2) [rule_format, of "Suc i"] w1(1) by simp
  qed
  have step: "on_exception n ?body w = on_exception n' ?body ?w"
    using b r n by simp
  obtain w' where w': "on_exception n' ?body ?w = on_exception (n' - k) ?body w'"
    "remote_calls w' = remote_calls ?w + k" "CACHE w' = CACHE ?w"
    "backoffs w' = backoffs ?w + k" "sha1_calls w' = sha1_calls ?w + k"
    using Suc.IH [OF m p kn] by blast
  show ?case
    by (rule exI [of _ w']) (use step w' w1 n in simp)
qed

lemma retry_prefix_raise:
  assumes "cache_miss stream w (request_key st model messages functions stream)"
    and "\<forall>i<k. \<exists>e. ChatCompletion_create st (remote_calls w + i)
                        (request_kwargs st model messages functions stream) = Inl e \<and> retryable e"
    and "k \<le> n"
    and "ChatCompletion_create st (remote_calls w + k)
           (request_kwargs st model messages functions stream) = Inl e"
    and "\<not> retryable e \<or> k = n"
  shows "fst (on_exception n (send_with_retries_body st model messages functions stream) w) = Inl e"
    and "remote_calls (snd (on_exception n (send_with_retries_body st model messages functions stream) w)) =
           remote_calls w + Suc k"
    and "CACHE (snd (on_exception n (send_with_retries_body st model messages functions stream) w)) = CACHE w"
    and "backoffs (snd (on_exception n (send_with_retries_body st model messages functions stream) w)) =
           backoffs w + k"
proof -
  let ?body = "send_with_retries_body st model messages functions stream"
  obtain w' where w': "on_exception n ?body w = on_exception (n - k) ?body w'"
    "remote_calls w' = remote_calls w + k" "CACHE w' = CACHE w" "backoffs w' = backoffs w + k"
    using retry_prefix [OF assms(1,2,3)] by blast
  have m: "cache_miss stream w' (request_key st model messages functions stream)"
    using assms(1) w'(3) by (simp add: cache_miss_def)
  have e: "ChatCompletion_create st (remote_calls w') (request_kwargs st model messages functions stream) = Inl e"
    using assms(4) w'(2) by simp
  obtain w2 where b: "?body w' = (Inl e, w2)"
    using body_miss_raise(1) [OF m e] by (cases "?body w'") simp
  have w2: "remote_calls w2 = Suc (remote_calls w')" "CACHE w2 = CACHE w'" "backoffs w2 = backoffs w'"
    using body_miss_raise(2,3,4) [OF m e] b by simp_all
  have last: "on_exception (n - k) ?body w' = (Inl e, w2)"
    using b assms(5) by (cases "n - k") auto
  show "fst (on_exception n ?body w) = Inl e"
    and "remote_calls (snd (on_exception n ?body w)) = remote_calls w + Suc k"
    and "CACHE (snd (on_exception n ?body w)) = CACHE w"
    and "backoffs (snd (on_exception n ?body w)) = backoffs w + k"
    using w' w2 last by simp_all
qed

lemma retry_prefix_answer:
  assumes "cache_miss stream w (request_key st model messages functions stream)"
    and "\<forall>i<k. \<exists>e. ChatCompletion_create st (remote_calls w + i)
                        (request_kwargs st model messages functions stream) = Inl e \<and> retryable e"
    and "k \<le> n"
    and "ChatCompletion_create st (remote_calls w + k)
           (request_kwargs st model messages functions stream) = Inr res"
  shows "fst (on_exception n (send_with_retries_body st model messages functions stream) w) =
           Inr (SHA1 (request_key st model messages functions stream), res)"
    and "remote_calls (snd (on_exception n (send_with_retries_body st model messages functions stream) w)) =
           remote_calls w + Suc k"
    and "CACHE (snd (on_exception n (send_with_retries_body st model messages functions stream) w)) =
           (if stream then CACHE w
            else map_option (\<lambda>cache. cache(request_key st model messages functions stream \<mapsto> res)) (CACHE w))"
    and "backoffs (snd (on_exception n (send_with_retries_body st model messages functions stream) w)) =
           backoffs w + k"
proof -
  let ?body = "send_with_retries_body st model messages functions stream"
  obtain w' where w': "on_exception n ?body w = on_exception (n - k) ?body w'"
    "remote_calls w' = remote_calls w + k" "CACHE w' = CACHE w" "backoffs w' = backoffs w + k"
    using retry_prefix [OF assms(1,2,3)] by blast
  have m: "cache_miss stream w' (request_key st model messages functions stream)"
    using assms(1) w'(3) by (simp add: cache_miss_def)
  have a: "ChatCompletion_create st (remote_calls w') (request_kwargs st model messages functions stream) = Inr res"
    using assms(4) w'(2) by simp
  obtain w2 where b: "?body w' = (Inr (SHA1 (request_key st model messages functions stream), res), w2)"
    using body_miss_return(1) [OF m a] by (cases "?body w'") simp
  have w2: "remote_calls w2 = Suc (remote_calls w')"
    "CACHE w2 = (if stream then CACHE w'
       else map_option (\<lambda>cache. cache(request_key st model messages functions stream \<mapsto> res)) (CACHE w'))"
    "backoffs w2 = backoffs w'"
    using body_miss_return(2,3,4) [OF m a] b by simp_all
  have last: "on_exception (n - k) ?body w' =
                (Inr (SHA1 (request_key st model messages functions stream), res), w2)"
    using b by (rule on_exception_return)
  show "fst (on_exception n ?body w) = Inr (SHA1 (request_key st model messages functions stream), res)"
    and "remote_calls (snd (on_exception n ?body w)) = remote_calls w + Suc k"
    and "CACHE (snd (on_exception n ?body w)) =
           (if stream then CACHE w
            else map_option (\<lambda>cache. cache(request_key st model messages functions stream \<mapsto> res)) (CACHE w))"
    and "backoffs (snd (on_exception n ?body w)) = backoffs w + k"
    using w' w2 last by simp_all
qed

lemma retry_miss:
  assumes "CACHE w = Some cache" and "cache (request_key st model messages functions False) = None"
  shows "remote_calls w < remote_calls (snd (on_exception n (send_with_retries_body st model messages functions False) w)) \<and>
         (case fst (on_exception n (send_with_retries_body st model messages functions False) w) of
            Inl e \<Rightarrow> CACHE (snd (on_exception n (send_with_retries_body st model messages functions False) w)) = Some cache
          | Inr (h, res) \<Rightarrow>
              h = SHA1 (request_key st model messages functions False) \<and>
              ChatCompletion_create st
                (remote_calls (snd (on_exception n (send_with_retries_body st model messages functions False) w)) - 1)
                (request_kwargs st model messages functions False) = Inr res \<and>
              CACHE (snd (on_exception n (send_with_retries_body st model messages functions False) w)) =
                Some (cache(request_key st model messages functions False \<mapsto> res)))"
  using assms(1)
proof (induction n arbitrary: w)
  case 0
  have m: "cache_miss False w (request_key st model messages functions False)"
    using "0.prems" assms(2) by (simp add: cache_miss_def)
  show ?case
  proof (cases "ChatCompletion_create st (remote_calls w) (request_kwargs st model messages functions False)")
    case (Inl e)
    show ?thesis using body_miss_raise [OF m Inl] "0.prems" by simp
  next
    case (Inr res)
    show ?thesis using body_miss_return [OF m Inr] "0.prems" Inr by simp
  qed
next
  case (Suc n)
  let ?body = "send_with_retries_body st model messages functions False"
  have m: "cache_miss False w (request_key st model messages functions False)"
    using Suc.prems assms(2) by (simp add: cache_miss_def)
  show ?case
  proof (cases "ChatCompletion_create st (remote_calls w) (request_kwargs st model messages functions False)")
    case (Inl e)
    obtain w' where b: "?body w = (Inl e, w')"
      using body_miss_raise(1) [OF m Inl] by (cases "?body w") simp
    have w': "remote_calls w' = Suc (remote_calls w)" "CACHE w' = Some cache"
      using body_miss_raise(2,3) [OF m Inl] b Suc.prems by simp_all
    show ?thesis
    proof (cases "retryable e")
      case True
      let ?w = "w'\<lparr>backoffs := Suc (backoffs w')\<rparr>"
      have step: "on_exception (Suc n) ?body w = on_exception n ?body ?w"
        using b True by simp
      have c: "CACHE ?w = Some cache" using w'(2) by simp
      show ?thesis unfolding step using Suc.IH [OF c] w'(1) by (auto split: sum.splits)
    next
      case False
      then show ?thesis using b w' by simp
    qed
  next
    case (Inr res)
    obtain w' where b: "?body w = (Inr (SHA1 (request_key st model messages functions False), res), w')"
      using body_miss_return(1) [OF m Inr] by (cases "?body w") simp
    have w': "remote_calls w' = Suc (remote_calls w)"
      "CACHE w' = Some (cache(request_key st model messages functions False \<mapsto> res))"
      using body_miss_return(2,3) [OF m Inr] b Suc.prems by simp_all
    show ?thesis using b w' Inr by simp
  qed
qed

lemma retry_stream:
  "CACHE (snd (on_exception n (send_with_retries_body st model messages functions True) w)) = CACHE w \<and>
   cache_reads (snd (on_exception n (send_with_retries_body st model messages functions True) w)) = cache_reads w \<and>
   sha1_calls w < sha1_calls (snd (on_exception n (send_with_retries_body st model messages functions True) w)) \<and>
   sha1_calls (snd (on_exception n (send_with_retries_body st model messages functions True) w)) + remote_calls w =
     sha1_calls w + remote_calls (snd (on_exception n (send_with_retries_body st model messages functions True) w))"
proof (induction n arbitrary: w)
  case 0
  show ?case by (simp add: body_stream)
next
  case (Suc n)
  let ?body = "send_with_retries_body st model messages functions True"
  obtain r w' where b: "?body w = (r, w')" by (cases "?body w")
  have w': "CACHE w' = CACHE w" "cache_reads w' = cache_reads w" "sha1_calls w' = Suc (sha1_calls w)"
    "remote_calls w' = Suc (remote_calls w)"
    using body_stream [of st model messages "functions" w] b by simp_all
  show ?case
  proof (cases r)
    case (Inl e)
    show ?thesis using b Inl w' Suc.IH [of "w'\<lparr>backoffs := Suc (backoffs w')\<rparr>"] by auto
  next
    case (Inr ret)
    show ?thesis using b Inr w' by simp
  qed
qed

lemma retry_hash:
  "fst (on_exception n (send_with_retries_body st model messages functions stream) w) = Inr (h, res) \<Longrightarrow>
   h = SHA1 (request_key st model messages functions stream)"
proof (induction n arbitrary: w)
  case 0
  then show ?case using body_hash by simp
next
  case (Suc n)
  let ?body = "send_with_retries_body st model messages functions stream"
  obtain r w' where b: "?body w = (r, w')" by (cases "?body w")
  show ?case
  proof (cases r)
    case (Inl e)
    then show ?thesis using b Suc.prems Suc.IH [of "w'\<lparr>backoffs := Suc (backoffs w')\<rparr>"]
      by (simp split: if_splits)
  next
    case (Inr ret)
    then show ?thesis using b Suc.prems body_hash [of st model messages "functions" stream w h res] by simp
  qed
qed

lemma OpenAI_send_hit:
  assumes "CACHE w = Some cache" and "cache (request_key st model messages functions False) = Some cached"
  shows "OpenAIChatBot_send_with_retries st model messages functions False w =
           (Inr (SHA1 (request_key st model messages functions False), cached),
            w\<lparr>sha1_calls := Suc (sha1_calls w), cache_reads := Suc (cache_reads w)\<rparr>)"
  unfolding OpenAIChatBot_send_with_retries_def
  using body_hit [OF assms] by (rule on_exception_return)

lemma OpenAI_send_returns:
  assumes "send_with_retries_body st model messages functions stream w = (Inr ret, w')"
  shows "OpenAIChatBot_send_with_retries st model messages functions stream w = (Inr ret, w')"
  unfolding OpenAIChatBot_send_with_retries_def using assms by (rule on_exception_return)

lemma OpenAI_send_first_answer:
  assumes "cache_miss stream w (request_key st model messages functions stream)"
    and "ChatCompletion_create st (remote_calls w) (request_kwargs st model messages functions stream) = Inr res"
  shows "OpenAIChatBot_send_with_retries st model messages functions stream w =
           send_with_retries_body st model messages functions stream w"
proof -
  obtain r w' where b: "send_with_retries_body st model messages functions stream w = (r, w')"
    by (cases "send_with_retries_body st model messages functions stream w")
  obtain ret where r: "r = Inr ret" using body_miss_return(1) [OF assms] b by simp
  show ?thesis using OpenAI_send_returns [OF b [unfolded r]] b r by simp
qed

subsection \<open>Splitting a transcript\<close>

lemma str_split_from_not_Nil: "str_split_from sep cur s \<noteq> []"
  by (induction s arbitrary: cur) auto

lemma str_split_from_colonless:
  "CHR '':'' \<notin> set s \<Longrightarrow> str_split_from '':'' cur s = [cur @ s]"
  by (induction s arbitrary: cur) (auto simp: str_startswith_def)

lemma unpack_colonless:
  "CHR '':'' \<notin> set segment \<Longrightarrow> unpack_role_content (str_split segment '':'') = Inl ValueError"
  by (simp add: str_split_def str_split_from_colonless)

lemma loop_colonless:
  assumes "segment \<in> set messages" and "CHR '':'' \<notin> set segment"
  shows "\<exists>e. convert_to_openai_loop gp messages response = Inl e"
  using assms(1)
proof (induction messages arbitrary: response)
  case Nil
  then show ?case by simp
next
  case (Cons message messages)
  show ?case
  proof (cases "message = segment")
    case True
    then show ?thesis using unpack_colonless [OF assms(2)] by simp
  next
    case False
    then have "segment \<in> set messages" using Cons.prems by simp
    then show ?thesis using Cons.IH
      by (auto split: sum.splits prod.splits)
  qed
qed

lemma loop_first_colonless:
  assumes "messages \<noteq> []" and "CHR '':'' \<notin> set (hd messages)"
  shows "convert_to_openai_loop gp messages response = Inl ValueError"
  using assms unpack_colonless by (cases messages) simp_all

lemma convert_to_openai_raises:
  "convert_to_openai self s = Inl ValueError \<or> convert_to_openai self s = Inl AttributeError"
proof -
  obtain m ms where "str_split s [CHR 0x0A, CHR 0x0A] = m # ms"
    using str_split_from_not_Nil [of "[CHR 0x0A, CHR 0x0A]" "[]" s]
    by (cases "str_split s [CHR 0x0A, CHR 0x0A]") (simp_all add: str_split_def)
  then show ?thesis
    by (cases "str_split m '':''" rule: unpack_role_content.cases)
       (simp_all add: convert_to_openai_def PromptConverter_generate_prompt_def)
qed

lemma convert_to_anthropic_raises:
  "message_dict \<noteq> [] \<Longrightarrow> convert_to_anthropic self message_dict = Inl AttributeError"
  by (cases message_dict)
     (auto simp: convert_to_anthropic_def RoleOptions_getattr_def RoleOptions_members_def)

subsection \<open>Serialisation with sorted keys\<close>








lemma attr_json_plain [simp]: "wf_json (attr_json a)" "same_json (attr_json a) (attr_json a)"
  by (simp_all add: attr_json_def split: option.splits)



section \<open>The claims\<close>

text \<open>
  Claim C1 (round trip). The claim: a conversation of USER and ASSISTANT messages,
  converted by \<^verbatim>\<open>convert_to_anthropic\<close> and back by \<^verbatim>\<open>convert_to_openai\<close>, is returned
  unchanged. On the scenario of the specification, the conversation of the single user
  message "hi" and its transcript, with the delimiters that line 163 and 164 annotate,
  both conversions raise AttributeError: the first reads \<^verbatim>\<open>RoleOptions.USER\<close>, the second
  calls \<^verbatim>\<open>self.generate_prompt\<close>. By \<open>convert_to_openai_raises\<close> no transcript at all is
  converted back.
\<close>

theorem roundtrip_scenario_raises:
  "convert_to_anthropic (PromptConverter_init (''Human:'' @ [CHR 0x0A, CHR 0x0A]) (''Assistant:'' @ [CHR 0x0A, CHR 0x0A]))
     [(''user'', ''hi'')] = Inl AttributeError \<and>
   (convert_to_openai (PromptConverter_init (''Human:'' @ [CHR 0x0A, CHR 0x0A]) (''Assistant:'' @ [CHR 0x0A, CHR 0x0A]))
     (''Human:'' @ [CHR 0x0A, CHR 0x0A] @ ''hi'') :: error + (string \<rightharpoonup> string)) = Inl AttributeError"
  by (simp add: convert_to_anthropic_def RoleOptions_getattr_def RoleOptions_members_def
      convert_to_openai_def PromptConverter_generate_prompt_def str_split_def str_startswith_def)

text \<open>
  Claim C2 (retry exhaustion), as amended: when the request is not answered from the
  cache (the request streams, or the cache is disabled, or it does not hold the key),
  a remote call that raises a retryable error on each of ten attempts is attempted
  exactly 10 times and the error of the tenth attempt is raised; an error outside the
  retried classes is raised at the attempt at which it occurs, the first or a later
  one, and no further attempt is made. An exception of a subclass of a retried class
  is retried as well.
\<close>

theorem retry_exhaustion_on_miss:
  assumes "cache_miss stream w (request_key st model messages functions stream)"
  shows "((\<forall>i<10. \<exists>e. ChatCompletion_create st (remote_calls w + i)
                          (request_kwargs st model messages functions stream) = Inl e \<and> retryable e) \<longrightarrow>
            (\<exists>e. ChatCompletion_create st (remote_calls w + 9)
                   (request_kwargs st model messages functions stream) = Inl e \<and>
                 fst (OpenAIChatBot_send_with_retries st model messages functions stream w) = Inl e) \<and>
            remote_calls (snd (OpenAIChatBot_send_with_retries st model messages functions stream w)) =
              remote_calls w + 10) \<and>
         (\<forall>k e. k < 10 \<and>
                 (\<forall>i<k. \<exists>e'. ChatCompletion_create st (remote_calls w + i)
                            (request_kwargs st model messages functions stream) = Inl e' \<and> retryable e') \<and>
                 ChatCompletion_create st (remote_calls w + k)
                   (request_kwargs st model messages functions stream) = Inl e \<and>
                 \<not> retryable e \<longrightarrow>
            fst (OpenAIChatBot_send_with_retries st model messages functions stream w) = Inl e \<and>
            remote_calls (snd (OpenAIChatBot_send_with_retries st model messages functions stream w)) =
              remote_calls w + k + 1)"
proof (intro conjI impI allI)
  let ?kw = "request_kwargs st model messages functions stream"
  assume a: "\<forall>i<10. \<exists>e. ChatCompletion_create st (remote_calls w + i) ?kw = Inl e \<and> retryable e"
  then have p: "\<forall>i<9. \<exists>e. ChatCompletion_create st (remote_calls w + i) ?kw = Inl e \<and> retryable e"
    by simp
  obtain e where e: "ChatCompletion_create st (remote_calls w + 9) ?kw = Inl e"
    using a [rule_format, of 9] by auto
  have l: "\<not> retryable e \<or> (9 :: nat) = 9" by simp
  note r = retry_prefix_raise [OF assms p order_refl e l, folded max_tries_def]
  show "\<exists>e. ChatCompletion_create st (remote_calls w + 9) ?kw = Inl e \<and>
            fst (OpenAIChatBot_send_with_retries st model messages functions stream w) = Inl e"
    using e r(1) by (simp add: OpenAIChatBot_send_with_retries_def max_tries_def)
  show "remote_calls (snd (OpenAIChatBot_send_with_retries st model messages functions stream w)) =
          remote_calls w + 10"
    using r(2) by (simp add: OpenAIChatBot_send_with_retries_def max_tries_def)
next
  fix k e
  let ?kw = "request_kwargs st model messages functions stream"
  assume b: "k < 10 \<and>
     (\<forall>i<k. \<exists>e'. ChatCompletion_create st (remote_calls w + i) ?kw = Inl e' \<and> retryable e') \<and>
     ChatCompletion_create st (remote_calls w + k) ?kw = Inl e \<and> \<not> retryable e"
  have k: "k \<le> 9" using b by simp
  have p: "\<forall>i<k. \<exists>e'. ChatCompletion_create st (remote_calls w + i) ?kw = Inl e' \<and> retryable e'"
    using b by blast
  have e: "ChatCompletion_create st (remote_calls w + k) ?kw = Inl e" using b by blast
  have l: "\<not> retryable e \<or> k = 9" using b by blast
  note r = retry_prefix_raise [OF assms p k e l]
  show "fst (OpenAIChatBot_send_with_retries st model messages functions stream w) = Inl e"
    using r(1) by (simp add: OpenAIChatBot_send_with_retries_def max_tries_def)
  show "remote_calls (snd (OpenAIChatBot_send_with_retries st model messages functions stream w)) =
          remote_calls w + k + 1"
    using r(2) by (simp add: OpenAIChatBot_send_with_retries_def max_tries_def)
qed

theorem retry_exhaustion_on_miss_witness:
  "cache_miss False (example_world None)
     (request_key (example_setting Map.empty (always_raises Timeout)) ''gpt-4'' example_messages None False) \<and>
   fst (OpenAIChatBot_send_with_retries (example_setting Map.empty (always_raises Timeout))
          ''gpt-4'' example_messages None False (example_world None)) = Inl Timeout \<and>
   remote_calls (snd (OpenAIChatBot_send_with_retries (example_setting Map.empty (always_raises Timeout))
          ''gpt-4'' example_messages None False (example_world None))) = 10 \<and>
   remote_calls (snd (OpenAIChatBot_send_with_retries
          (example_setting Map.empty (always_raises (Subclass RequestsConnectionError ''SSLError'')))
          ''gpt-4'' example_messages None False (example_world None))) = 10 \<and>
   fst (OpenAIChatBot_send_with_retries
          (example_setting Map.empty (raises_then 1 Timeout (Inl InvalidRequestError)))
          ''gpt-4'' example_messages None False (example_world None)) = Inl InvalidRequestError \<and>
   remote_calls (snd (OpenAIChatBot_send_with_retries
          (example_setting Map.empty (raises_then 1 Timeout (Inl InvalidRequestError)))
          ''gpt-4'' example_messages None False (example_world None))) = 2"
proof -
  have m: "\<And>st. cache_miss False (example_world None) (request_key st ''gpt-4'' example_messages None False)"
    by (simp add: cache_miss_def)
  note t = retry_exhaustion_on_miss [OF m [of "example_setting Map.empty (always_raises Timeout)"]]
  note s = retry_exhaustion_on_miss [OF m [of "example_setting Map.empty (always_raises (Subclass RequestsConnectionError ''SSLError''))"]]
  note u = retry_exhaustion_on_miss [OF m [of "example_setting Map.empty (raises_then 1 Timeout (Inl InvalidRequestError))"]]
  have 1: "fst (OpenAIChatBot_send_with_retries (example_setting Map.empty (always_raises Timeout))
          ''gpt-4'' example_messages None False (example_world None)) = Inl Timeout"
    and 2: "remote_calls (snd (OpenAIChatBot_send_with_retries (example_setting Map.empty (always_raises Timeout))
          ''gpt-4'' example_messages None False (example_world None))) = 10"
    using t [THEN conjunct1] by (simp_all add: always_raises_def)
  have 3: "remote_calls (snd (OpenAIChatBot_send_with_retries
          (example_setting Map.empty (always_raises (Subclass RequestsConnectionError ''SSLError'')))
          ''gpt-4'' example_messages None False (example_world None))) = 10"
    using s [THEN conjunct1] by (simp add: always_raises_def)
  have 4: "fst (OpenAIChatBot_send_with_retries
          (example_setting Map.empty (raises_then 1 Timeout (Inl InvalidRequestError)))
          ''gpt-4'' example_messages None False (example_world None)) = Inl InvalidRequestError \<and>
        remote_calls (snd (OpenAIChatBot_send_with_retries
          (example_setting Map.empty (raises_then 1 Timeout (Inl InvalidRequestError)))
          ''gpt-4'' example_messages None False (example_world None))) = 2"
    using u [THEN conjunct2, rule_format, of 1 InvalidRequestError]
    by (simp add: raises_then_def)
  show ?thesis using m 1 2 3 4 by simp
qed

text \<open>
  Claim C2 as stated, for every non-streaming request, fails when the cache holds the
  key: the remote call would always raise Timeout, and the call returns the cached
  response after no attempt at all.
\<close>

theorem cache_hit_makes_no_attempt:
  "fst (OpenAIChatBot_send_with_retries (example_setting Map.empty (always_raises Timeout))
     ''gpt-4'' example_messages None False
     (example_world (Some [request_key (example_setting Map.empty (always_raises Timeout))
                             ''gpt-4'' example_messages None False \<mapsto> ''cached''])))
   = Inr (SHA1 (request_key (example_setting Map.empty (always_raises Timeout))
                   ''gpt-4'' example_messages None False), ''cached'') \<and>
   remote_calls (snd (OpenAIChatBot_send_with_retries (example_setting Map.empty (always_raises Timeout))
     ''gpt-4'' example_messages None False
     (example_world (Some [request_key (example_setting Map.empty (always_raises Timeout))
                             ''gpt-4'' example_messages None False \<mapsto> ''cached''])))) = 0"
  by (simp add: OpenAI_send_hit [where cached = "''cached''"])

text \<open>
  Claim C3 (provider priority), as amended: whenever the variable ANTHROPIC_API_KEY is
  set to a value that is not empty, both dispatchers construct the Anthropic provider
  with that key, whatever the model name and whether or not OPENAI_API_KEY is set.
\<close>

theorem nonempty_anthropic_key_selects_streaming:
  assumes "environ st ''ANTHROPIC_API_KEY'' = Some k" and "k \<noteq> []"
  shows "constructed (snd (send_with_retries st model messages functions stream w)) =
           constructed w @ [AnthropicChatBot_init st (Key k)] \<and>
         constructed (snd (simple_send_with_retries st model messages w)) =
           constructed w @ [AnthropicChatBot_init st (Key k)]"
  using assms
  by (simp add: send_with_retries_def simple_send_with_retries_def check_api_keys_def
      construct_bot_def AnthropicChatBot_init_def)

theorem nonempty_anthropic_key_selects_streaming_witness:
  "constructed (snd (send_with_retries
      (example_setting [''ANTHROPIC_API_KEY'' \<mapsto> ''sk-ant'', ''OPENAI_API_KEY'' \<mapsto> ''sk-test'']
         (always_returns ''ok''))
      ''gpt-4'' example_messages None False (example_world None))) =
     [AnthropicChatBot (Key ''sk-ant'')
        (PromptConverter_init ([CHR 0x0A, CHR 0x0A] @ ''Human:'') ([CHR 0x0A, CHR 0x0A] @ ''Assistant:''))] \<and>
   constructed (snd (simple_send_with_retries
      (example_setting [''ANTHROPIC_API_KEY'' \<mapsto> ''sk-ant'', ''OPENAI_API_KEY'' \<mapsto> ''sk-test'']
         (always_returns ''ok''))
      ''gpt-4'' example_messages (example_world None))) =
     [AnthropicChatBot (Key ''sk-ant'')
        (PromptConverter_init ([CHR 0x0A, CHR 0x0A] @ ''Human:'') ([CHR 0x0A, CHR 0x0A] @ ''Assistant:''))]"
proof -
  have k: "environ (example_setting [''ANTHROPIC_API_KEY'' \<mapsto> ''sk-ant'', ''OPENAI_API_KEY'' \<mapsto> ''sk-test'']
             (always_returns ''ok'')) ''ANTHROPIC_API_KEY'' = Some ''sk-ant''"
    by (simp add: example_setting_def)
  have n: "''sk-ant'' \<noteq> []" by simp
  have i: "AnthropicChatBot_init (example_setting [''ANTHROPIC_API_KEY'' \<mapsto> ''sk-ant'', ''OPENAI_API_KEY'' \<mapsto> ''sk-test'']
             (always_returns ''ok'')) (Key ''sk-ant'') =
           AnthropicChatBot (Key ''sk-ant'')
             (PromptConverter_init ([CHR 0x0A, CHR 0x0A] @ ''Human:'') ([CHR 0x0A, CHR 0x0A] @ ''Assistant:''))"
    by (simp add: AnthropicChatBot_init_def example_setting_def)
  show ?thesis
    using nonempty_anthropic_key_selects_streaming [OF k n] by (simp add: i)
qed

text \<open>
  Claim C3 as stated, whenever both credentials are present, fails when the Anthropic
  variable is present and empty: \<^verbatim>\<open>check_api_keys\<close> returns \<^verbatim>\<open>False\<close> and the dispatcher
  constructs the OpenAI provider.
\<close>

theorem empty_anthropic_key_selects_batch:
  "environ (example_setting [''ANTHROPIC_API_KEY'' \<mapsto> '''', ''OPENAI_API_KEY'' \<mapsto> ''sk-test''] (\<lambda>n kwargs. Inr ''ok'')) ''ANTHROPIC_API_KEY'' \<noteq> None \<and>
   environ (example_setting [''ANTHROPIC_API_KEY'' \<mapsto> '''', ''OPENAI_API_KEY'' \<mapsto> ''sk-test''] (\<lambda>n kwargs. Inr ''ok'')) ''OPENAI_API_KEY'' \<noteq> None \<and>
   constructed (snd (send_with_retries
      (example_setting [''ANTHROPIC_API_KEY'' \<mapsto> '''', ''OPENAI_API_KEY'' \<mapsto> ''sk-test''] (\<lambda>n kwargs. Inr ''ok''))
      ''claude-2'' example_messages None False (example_world None))) = [OpenAIChatBot (Some ''sk-test'')]"
  by (simp add: send_with_retries_def check_api_keys_def construct_bot_def OpenAIChatBot_init_def
      OpenAI_send_constructed example_setting_def example_world_def)

text \<open>
  Claim C4 (credential check). The claim: with the Anthropic credential absent and the
  OpenAI credential present the check completes and the batch provider is selected.
  Line 24 reads \<^verbatim>\<open>os.environ["ANTHROPIC_API_KEY"]\<close>, so in that environment the check
  and both dispatchers raise KeyError and construct no provider.
\<close>

theorem absent_anthropic_key_raises_KeyError:
  "check_api_keys [''OPENAI_API_KEY'' \<mapsto> ''sk-test''] = Inl KeyError \<and>
   send_with_retries (example_setting [''OPENAI_API_KEY'' \<mapsto> ''sk-test''] (\<lambda>n kwargs. Inr ''ok''))
     ''gpt-4'' example_messages None False (example_world None) = (Inl KeyError, example_world None) \<and>
   simple_send_with_retries (example_setting [''OPENAI_API_KEY'' \<mapsto> ''sk-test''] (\<lambda>n kwargs. Inr ''ok''))
     ''gpt-4'' example_messages (example_world None) = (Inl KeyError, example_world None)"
  by (simp add: check_api_keys_def send_with_retries_def simple_send_with_retries_def example_setting_def)

text \<open>
  Claim C5 (cache short-circuit). For a non-streaming request and an enabled cache: when
  the cache holds the key of the request, the call returns the cached response with the
  fingerprint, makes no remote call and leaves the cache as it is; when it does not,
  the call makes a remote call, and when the remote call answers, at once or after
  retried errors, the call returns that answer with the fingerprint and has stored it
  under the key. Whatever the call returns on a miss is the answer of its last remote
  call.
\<close>

theorem cache_short_circuit:
  assumes "CACHE w = Some cache"
  shows "(\<forall>cached. cache (request_key st model messages functions False) = Some cached \<longrightarrow>
            fst (OpenAIChatBot_send_with_retries st model messages functions False w) =
              Inr (SHA1 (request_key st model messages functions False), cached) \<and>
            remote_calls (snd (OpenAIChatBot_send_with_retries st model messages functions False w)) = remote_calls w \<and>
            CACHE (snd (OpenAIChatBot_send_with_retries st model messages functions False w)) = Some cache) \<and>
         (cache (request_key st model messages functions False) = None \<longrightarrow>
            remote_calls w < remote_calls (snd (OpenAIChatBot_send_with_retries st model messages functions False w)) \<and>
            (\<forall>h res. fst (OpenAIChatBot_send_with_retries st model messages functions False w) = Inr (h, res) \<longrightarrow>
               h = SHA1 (request_key st model messages functions False) \<and>
               ChatCompletion_create st
                 (remote_calls (snd (OpenAIChatBot_send_with_retries st model messages functions False w)) - 1)
                 (request_kwargs st model messages functions False) = Inr res \<and>
               CACHE (snd (OpenAIChatBot_send_with_retries st model messages functions False w)) =
                 Some (cache(request_key st model messages functions False \<mapsto> res))) \<and>
            (\<forall>k res. k < 10 \<and>
               (\<forall>i<k. \<exists>e. ChatCompletion_create st (remote_calls w + i)
                          (request_kwargs st model messages functions False) = Inl e \<and> retryable e) \<and>
               ChatCompletion_create st (remote_calls w + k)
                 (request_kwargs st model messages functions False) = Inr res \<longrightarrow>
               fst (OpenAIChatBot_send_with_retries st model messages functions False w) =
                 Inr (SHA1 (request_key st model messages functions False), res) \<and>
               CACHE (snd (OpenAIChatBot_send_with_retries st model messages functions False w)) =
                 Some (cache(request_key st model messages functions False \<mapsto> res)) \<and>
               remote_calls (snd (OpenAIChatBot_send_with_retries st model messages functions False w)) =
                 remote_calls w + k + 1))"
proof (intro conjI impI allI)
  fix cached
  assume h: "cache (request_key st model messages functions False) = Some cached"
  show "fst (OpenAIChatBot_send_with_retries st model messages functions False w) =
          Inr (SHA1 (request_key st model messages functions False), cached)"
    and "remote_calls (snd (OpenAIChatBot_send_with_retries st model messages functions False w)) = remote_calls w"
    and "CACHE (snd (OpenAIChatBot_send_with_retries st model messages functions False w)) = Some cache"
    using OpenAI_send_hit [OF assms h] assms by simp_all
next
  assume m: "cache (request_key st model messages functions False) = None"
  note r = retry_miss [OF assms m, of "max_tries - 1", folded OpenAIChatBot_send_with_retries_def]
  show "remote_calls w < remote_calls (snd (OpenAIChatBot_send_with_retries st model messages functions False w))"
    using r by simp
  {
    fix h res
    assume ok: "fst (OpenAIChatBot_send_with_retries st model messages functions False w) = Inr (h, res)"
    show "h = SHA1 (request_key st model messages functions False)"
      and "ChatCompletion_create st
             (remote_calls (snd (OpenAIChatBot_send_with_retries st model messages functions False w)) - 1)
             (request_kwargs st model messages functions False) = Inr res"
      and "CACHE (snd (OpenAIChatBot_send_with_retries st model messages functions False w)) =
             Some (cache(request_key st model messages functions False \<mapsto> res))"
      using r ok by simp_all
  }
  {
    fix k res
    let ?kw = "request_kwargs st model messages functions False"
    assume a: "k < 10 \<and>
       (\<forall>i<k. \<exists>e. ChatCompletion_create st (remote_calls w + i) ?kw = Inl e \<and> retryable e) \<and>
       ChatCompletion_create st (remote_calls w + k) ?kw = Inr res"
    have cm: "cache_miss False w (request_key st model messages functions False)"
      using assms m by (simp add: cache_miss_def)
    have k: "k \<le> 9" using a by simp
    have p: "\<forall>i<k. \<exists>e. ChatCompletion_create st (remote_calls w + i) ?kw = Inl e \<and> retryable e"
      using a by blast
    have c: "ChatCompletion_create st (remote_calls w + k) ?kw = Inr res" using a by blast
    note t = retry_prefix_answer [OF cm p k c]
    show "fst (OpenAIChatBot_send_with_retries st model messages functions False w) =
            Inr (SHA1 (request_key st model messages functions False), res)"
      using t(1) by (simp add: OpenAIChatBot_send_with_retries_def max_tries_def)
    show "CACHE (snd (OpenAIChatBot_send_with_retries st model messages functions False w)) =
            Some (cache(request_key st model messages functions False \<mapsto> res))"
      using t(3) assms by (simp add: OpenAIChatBot_send_with_retries_def max_tries_def)
    show "remote_calls (snd (OpenAIChatBot_send_with_retries st model messages functions False w)) =
            remote_calls w + k + 1"
      using t(2) by (simp add: OpenAIChatBot_send_with_retries_def max_tries_def)
  }
qed

theorem cache_short_circuit_witness:
  "fst (OpenAIChatBot_send_with_retries (example_setting Map.empty (always_raises Timeout))
          ''gpt-4'' example_messages None False
          (example_world (Some [request_key (example_setting Map.empty (always_raises Timeout))
                                  ''gpt-4'' example_messages None False \<mapsto> ''cached''])))
     = Inr (SHA1 (request_key (example_setting Map.empty (always_raises Timeout))
                    ''gpt-4'' example_messages None False), ''cached'') \<and>
   fst (OpenAIChatBot_send_with_retries (example_setting Map.empty (always_returns ''ok''))
          ''gpt-4'' example_messages None False (example_world (Some Map.empty)))
     = Inr (SHA1 (request_key (example_setting Map.empty (always_returns ''ok''))
                    ''gpt-4'' example_messages None False), ''ok'') \<and>
   CACHE (snd (OpenAIChatBot_send_with_retries (example_setting Map.empty (always_returns ''ok''))
          ''gpt-4'' example_messages None False (example_world (Some Map.empty))))
     = Some [request_key (example_setting Map.empty (always_returns ''ok''))
               ''gpt-4'' example_messages None False \<mapsto> ''ok''] \<and>
   remote_calls (snd (OpenAIChatBot_send_with_retries (example_setting Map.empty (always_returns ''ok''))
          ''gpt-4'' example_messages None False (example_world (Some Map.empty)))) = 1 \<and>
   fst (OpenAIChatBot_send_with_retries (example_setting Map.empty (raises_then 2 Timeout (Inr ''ok'')))
          ''gpt-4'' example_messages None False (example_world (Some Map.empty)))
     = Inr (SHA1 (request_key (example_setting Map.empty (raises_then 2 Timeout (Inr ''ok'')))
                    ''gpt-4'' example_messages None False), ''ok'') \<and>
   remote_calls (snd (OpenAIChatBot_send_with_retries (example_setting Map.empty (raises_then 2 Timeout (Inr ''ok'')))
          ''gpt-4'' example_messages None False (example_world (Some Map.empty)))) = 3"
proof -
  let ?st = "example_setting Map.empty (always_raises Timeout)"
  let ?k = "request_key ?st ''gpt-4'' example_messages None False"
  let ?st' = "example_setting Map.empty (always_returns ''ok'')"
  let ?st'' = "example_setting Map.empty (raises_then 2 Timeout (Inr ''ok''))"
  have c: "CACHE (example_world (Some [?k \<mapsto> ''cached''])) = Some [?k \<mapsto> ''cached'']"
    by simp
  have hit: "[?k \<mapsto> ''cached''] ?k = Some ''cached''" by simp
  have c': "CACHE (example_world (Some Map.empty) :: string world) = Some Map.empty"
    by simp
  have miss: "\<And>key. (Map.empty :: string \<rightharpoonup> string) key = None" by simp
  note h = cache_short_circuit [OF c, THEN conjunct1, rule_format, OF hit]
  note a = cache_short_circuit [OF c', THEN conjunct2, THEN mp, OF miss, THEN conjunct2, THEN conjunct2,
      rule_format, where k = 0 and res = "''ok''"
        and st = "example_setting Map.empty (always_returns ''ok'')"]
  note b = cache_short_circuit [OF c', THEN conjunct2, THEN mp, OF miss, THEN conjunct2, THEN conjunct2,
      rule_format, where k = 2 and res = "''ok''"
        and st = "example_setting Map.empty (raises_then 2 Timeout (Inr ''ok''))"]
  have a': "fst (OpenAIChatBot_send_with_retries ?st' ''gpt-4'' example_messages None False
                   (example_world (Some Map.empty))) =
              Inr (SHA1 (request_key ?st' ''gpt-4'' example_messages None False), ''ok'') \<and>
            CACHE (snd (OpenAIChatBot_send_with_retries ?st' ''gpt-4'' example_messages None False
                   (example_world (Some Map.empty)))) =
              Some [request_key ?st' ''gpt-4'' example_messages None False \<mapsto> ''ok''] \<and>
            remote_calls (snd (OpenAIChatBot_send_with_retries ?st' ''gpt-4'' example_messages None False
                   (example_world (Some Map.empty)))) = 1"
    using a by (simp add: always_returns_def)
  have b': "fst (OpenAIChatBot_send_with_retries ?st'' ''gpt-4'' example_messages None False
                   (example_world (Some Map.empty))) =
              Inr (SHA1 (request_key ?st'' ''gpt-4'' example_messages None False), ''ok'') \<and>
            remote_calls (snd (OpenAIChatBot_send_with_retries ?st'' ''gpt-4'' example_messages None False
                   (example_world (Some Map.empty)))) = 3"
    using b by (simp add: raises_then_def)
  show ?thesis using h a' b' by simp
qed



text \<open>
  Claim C7 (streaming requests and the cache), as amended: a streaming request never
  looks the cache up and never stores into it, so the cache is unchanged; its
  fingerprint is computed all the same, once on every attempt (as many fingerprints
  are computed as remote calls are made, and at least one), and is returned with the
  response.
\<close>

theorem streaming_leaves_cache:
  "CACHE (snd (OpenAIChatBot_send_with_retries st model messages functions True w)) = CACHE w \<and>
   cache_reads (snd (OpenAIChatBot_send_with_retries st model messages functions True w)) = cache_reads w \<and>
   sha1_calls w < sha1_calls (snd (OpenAIChatBot_send_with_retries st model messages functions True w)) \<and>
   sha1_calls (snd (OpenAIChatBot_send_with_retries st model messages functions True w)) - sha1_calls w =
     remote_calls (snd (OpenAIChatBot_send_with_retries st model messages functions True w)) - remote_calls w \<and>
   (\<forall>h res. fst (OpenAIChatBot_send_with_retries st model messages functions True w) = Inr (h, res) \<longrightarrow>
      h = SHA1 (request_key st model messages functions True))"
  using retry_stream [of "max_tries - 1" st model messages "functions" w] retry_hash
  by (auto simp: OpenAIChatBot_send_with_retries_def)

theorem streaming_leaves_cache_witness:
  "CACHE (snd (OpenAIChatBot_send_with_retries
      (example_setting Map.empty (raises_then 3 Timeout (Inr ''chunks'')))
      ''gpt-4'' example_messages None True (example_world (Some Map.empty)))) = Some Map.empty \<and>
   cache_reads (snd (OpenAIChatBot_send_with_retries
      (example_setting Map.empty (raises_then 3 Timeout (Inr ''chunks'')))
      ''gpt-4'' example_messages None True (example_world (Some Map.empty)))) = 0 \<and>
   remote_calls (snd (OpenAIChatBot_send_with_retries
      (example_setting Map.empty (raises_then 3 Timeout (Inr ''chunks'')))
      ''gpt-4'' example_messages None True (example_world (Some Map.empty)))) = 4 \<and>
   sha1_calls (snd (OpenAIChatBot_send_with_retries
      (example_setting Map.empty (raises_then 3 Timeout (Inr ''chunks'')))
      ''gpt-4'' example_messages None True (example_world (Some Map.empty)))) = 4"
proof -
  let ?st = "example_setting Map.empty (raises_then 3 Timeout (Inr ''chunks''))"
  let ?w = "example_world (Some Map.empty) :: string world"
  have m: "cache_miss True ?w (request_key ?st ''gpt-4'' example_messages None True)"
    by (simp add: cache_miss_def)
  have p: "\<forall>i<3. \<exists>e. ChatCompletion_create ?st (remote_calls ?w + i)
             (request_kwargs ?st ''gpt-4'' example_messages None True) = Inl e \<and> retryable e"
    by (simp add: raises_then_def)
  have k: "(3 :: nat) \<le> 9" by simp
  have a: "ChatCompletion_create ?st (remote_calls ?w + 3)
             (request_kwargs ?st ''gpt-4'' example_messages None True) = Inr ''chunks''"
    by (simp add: raises_then_def)
  have r: "remote_calls (snd (OpenAIChatBot_send_with_retries ?st ''gpt-4'' example_messages None True ?w)) = 4"
    using retry_prefix_answer(2) [OF m p k a]
    by (simp add: OpenAIChatBot_send_with_retries_def max_tries_def)
  show ?thesis
    using r streaming_leaves_cache [of ?st "''gpt-4''" example_messages None ?w]
    by simp
qed

text \<open>
  Claim C7 as stated, the fingerprint computation is never invoked for a streaming
  request, fails: a streaming call that is answered at once has computed the
  fingerprint once and returns it.
\<close>

theorem streaming_computes_fingerprint:
  "sha1_calls (snd (OpenAIChatBot_send_with_retries (example_setting Map.empty (always_returns ''chunks''))
      ''gpt-4'' example_messages None True (example_world (Some Map.empty)))) = 1 \<and>
   fst (OpenAIChatBot_send_with_retries (example_setting Map.empty (always_returns ''chunks''))
      ''gpt-4'' example_messages None True (example_world (Some Map.empty))) =
     Inr (SHA1 (request_key (example_setting Map.empty (always_returns ''chunks''))
            ''gpt-4'' example_messages None True), ''chunks'')"
proof -
  have m: "cache_miss True (example_world (Some Map.empty))
             (request_key (example_setting Map.empty (always_returns ''chunks'')) ''gpt-4'' example_messages None True)"
    by (simp add: cache_miss_def)
  have c: "ChatCompletion_create (example_setting Map.empty (always_returns ''chunks''))
             (remote_calls (example_world (Some Map.empty)))
             (request_kwargs (example_setting Map.empty (always_returns ''chunks'')) ''gpt-4'' example_messages None True)
           = Inr ''chunks''"
    by (simp add: always_returns_def)
  show ?thesis
    using OpenAI_send_first_answer [OF m c] body_miss_return(1) [OF m c]
      body_stream(3) [of "example_setting Map.empty (always_returns ''chunks'')" "''gpt-4''" example_messages None "example_world (Some Map.empty)"]
    by simp
qed

text \<open>
  Claim C8 (empty prompt), as amended: \<^verbatim>\<open>async_stream\<close> with an empty prompt always ends
  in an exception and changes nothing, so no remote call is made; for a model whose
  name starts with "claude" the exception is the ValueError of line 135.
\<close>

theorem empty_prompt_fails_before_remote_call:
  assumes "prompt = None \<or> prompt = Some []"
  shows "(\<exists>e. fst (async_stream self prompt model w) = Inl e) \<and>
         snd (async_stream self prompt model w) = w \<and>
         (\<forall>m. model = Some m \<and> str_startswith m ''claude'' \<longrightarrow>
              fst (async_stream self prompt model w) = Inl ValueError)"
  using assms
  by (auto simp: async_stream_def is_claude_def split: option.splits sum.splits bool.splits)

theorem empty_prompt_fails_before_remote_call_witness:
  "(Some '''' = None \<or> Some '''' = Some []) \<and>
   str_startswith ''claude-2'' ''claude'' \<and>
   async_stream (AnthropicChatBot (Key ''sk-ant'') (PromptConverter_init ''H'' ''A''))
     (Some '''') (Some ''claude-2'') (example_world None) = (Inl ValueError, example_world None)"
proof -
  have p: "Some '''' = None \<or> Some '''' = Some []" by simp
  have c: "str_startswith ''claude-2'' ''claude''" by (simp add: str_startswith_def)
  show ?thesis
    using p c
      empty_prompt_fails_before_remote_call [OF p,
        of "AnthropicChatBot (Key ''sk-ant'') (PromptConverter_init ''H'' ''A'')"
           "Some ''claude-2''" "example_world None"]
    by (simp add: prod_eq_iff)
qed

text \<open>
  Claim C8 as stated, the exception is an InvalidRequestError, fails: for a claude model
  and the empty string the exception is ValueError, which is not the
  InvalidRequestError that \<^verbatim>\<open>simple_send_with_retries\<close> catches.
\<close>

theorem empty_prompt_raises_ValueError:
  "fst (async_stream (AnthropicChatBot (Key ''sk-ant'') (PromptConverter_init ''H'' ''A''))
         (Some '''') (Some ''claude-2'') (example_world None)) = Inl ValueError \<and>
   fst (async_stream (AnthropicChatBot (Key ''sk-ant'') (PromptConverter_init ''H'' ''A''))
         (Some '''') (Some ''claude-2'') (example_world None)) \<noteq> Inl InvalidRequestError"
  by (simp add: async_stream_def is_claude_def str_startswith_def)

text \<open>
  Claim C9 (malformed transcript). The claim: the transcript is split on the double
  newline, each segment is split into role and content on the first colon, and a
  segment with no colon makes the conversion fail. The segment "Human: a:b" has role
  and content around its first colon, but line 180 is \<^verbatim>\<open>message.split(":")\<close> unpacked
  into two names: it splits on every colon and the unpacking of three parts raises
  ValueError, so a transcript whose content holds a colon is not converted.
\<close>

theorem segment_not_split_on_first_colon:
  "unpack_role_content (str_split ''Human: a:b'' '':'') = Inl ValueError \<and>
   spec_split_first_colon ''Human: a:b'' = Some (''Human'', '' a:b'') \<and>
   (convert_to_openai (PromptConverter_init (''Human:'' @ [CHR 0x0A, CHR 0x0A]) (''Assistant:'' @ [CHR 0x0A, CHR 0x0A]))
      ''Human: a:b'' :: error + (string \<rightharpoonup> string)) = Inl ValueError"
  by (simp add: convert_to_openai_def spec_split_first_colon_def str_split_def str_startswith_def)

text \<open>
  The other half of C9 holds of the code: a transcript with a segment that has no colon
  is never converted, whatever \<^verbatim>\<open>generate_prompt\<close> would do with the other segments, so
  the segment is not skipped; when the segment is the first one, the exception is the
  ValueError of the unpacking in line 180.
\<close>

lemma colonless_segment_not_converted:
  assumes "segment \<in> set (str_split message_string [CHR 0x0A, CHR 0x0A])"
    and "CHR '':'' \<notin> set segment"
  shows "(\<exists>e. convert_to_openai_loop gp (str_split message_string [CHR 0x0A, CHR 0x0A]) response = Inl e) \<and>
         (\<exists>e. convert_to_openai self message_string = (Inl e :: error + (string \<rightharpoonup> 'v))) \<and>
         (hd (str_split message_string [CHR 0x0A, CHR 0x0A]) = segment \<longrightarrow>
            convert_to_openai_loop gp (str_split message_string [CHR 0x0A, CHR 0x0A]) response = Inl ValueError \<and>
            convert_to_openai self message_string = (Inl ValueError :: error + (string \<rightharpoonup> 'v)))"
proof (intro conjI impI)
  show "\<exists>e. convert_to_openai_loop gp (str_split message_string [CHR 0x0A, CHR 0x0A]) response = Inl e"
    using loop_colonless [OF assms] .
  show "\<exists>e. convert_to_openai self message_string = (Inl e :: error + (string \<rightharpoonup> 'v))"
    unfolding convert_to_openai_def using loop_colonless [OF assms] .
  assume h: "hd (str_split message_string [CHR 0x0A, CHR 0x0A]) = segment"
  have n: "str_split message_string [CHR 0x0A, CHR 0x0A] \<noteq> []"
    using assms(1) by auto
  have c: "CHR '':'' \<notin> set (hd (str_split message_string [CHR 0x0A, CHR 0x0A]))"
    using h assms(2) by simp
  show "convert_to_openai_loop gp (str_split message_string [CHR 0x0A, CHR 0x0A]) response = Inl ValueError"
    using loop_first_colonless [OF n c] .
  show "convert_to_openai self message_string = (Inl ValueError :: error + (string \<rightharpoonup> 'v))"
    unfolding convert_to_openai_def using loop_first_colonless [OF n c] .
qed

text \<open>
  Claim C10 (the Anthropic provider through the dispatcher). Whenever \<^verbatim>\<open>check_api_keys\<close>
  returns a key that is true in an \<^verbatim>\<open>if\<close>, both dispatchers raise AttributeError,
  for every model, messages, functions and stream flag: AnthropicChatBot has neither
  method.
\<close>

theorem anthropic_provider_lacks_send_methods:
  assumes "check_api_keys (environ st) = Inr api_key" and "truthy api_key"
  shows "fst (send_with_retries st model messages functions stream w) = Inl AttributeError \<and>
         fst (simple_send_with_retries st model messages w) = Inl AttributeError"
  using assms
  by (simp add: send_with_retries_def simple_send_with_retries_def construct_bot_def
      AnthropicChatBot_init_def)

theorem anthropic_provider_lacks_send_methods_witness:
  "check_api_keys (environ (example_setting [''ANTHROPIC_API_KEY'' \<mapsto> ''sk-ant''] (\<lambda>n kwargs. Inr ''ok''))) = Inr (Key ''sk-ant'') \<and>
   truthy (Key ''sk-ant'') \<and>
   fst (send_with_retries (example_setting [''ANTHROPIC_API_KEY'' \<mapsto> ''sk-ant''] (\<lambda>n kwargs. Inr ''ok''))
          ''gpt-4'' example_messages None False (example_world None)) = Inl AttributeError \<and>
   fst (simple_send_with_retries (example_setting [''ANTHROPIC_API_KEY'' \<mapsto> ''sk-ant''] (\<lambda>n kwargs. Inr ''ok''))
          ''gpt-4'' example_messages (example_world None)) = Inl AttributeError"
proof -
  have k: "check_api_keys (environ (example_setting [''ANTHROPIC_API_KEY'' \<mapsto> ''sk-ant''] (\<lambda>n kwargs. Inr ''ok''))) = Inr (Key ''sk-ant'')"
    by (simp add: check_api_keys_def example_setting_def)
  have t: "truthy (Key ''sk-ant'')" by simp
  show ?thesis using k t anthropic_provider_lacks_send_methods [OF k t] by simp
qed

end
